theory Spec2Isabelle
  imports Main "HOL-Library.Word"
begin

section \<open>The data of Template.message-composer.ts\<close>

text \<open>
  A JavaScript string is a sequence of UTF-16 code units, a \<^verbatim>\<open>Uint8Array\<close> a
  sequence of bytes. \<open>js\<close> embeds an ASCII literal of the source.
\<close>

type_synonym js_string = "16 word list"
type_synonym bytes = "8 word list"

definition js :: "string \<Rightarrow> js_string" where
  "js s = map (\<lambda>c. of_nat (of_char c)) s"

text \<open>The bytes of an ASCII text, one byte for each character.\<close>

definition ascii :: "string \<Rightarrow> bytes" where
  "ascii s = map (\<lambda>c. of_nat (of_char c)) s"

text \<open>\<^verbatim>\<open>Coin\<close> of @cosmjs/amino: a denomination and an amount, both strings.\<close>

record Coin =
  denom :: js_string
  amount :: js_string

text \<open>
  The values \<^verbatim>\<open>JSON.stringify\<close> is applied to. An object is the list of its
  members in property order. Numbers are left out: the composer builds none.
\<close>

datatype json =
    JNull
  | JBool bool
  | JString js_string
  | JArray "json list"
  | JObject "(js_string \<times> json) list"

text \<open>
  The record of an execute-contract message (fields sender, contract, msg, funds), used both
  for the object literal handed to \<^verbatim>\<open>MsgExecuteContract.fromPartial\<close> and for what it
  returns. \<open>funds = None\<close> is JavaScript's \<^verbatim>\<open>undefined\<close>.
\<close>

record MsgExecuteContract =
  sender :: js_string
  contract :: js_string
  msg :: bytes
  funds :: "Coin list option"

record MsgExecuteContractEncodeObject =
  typeUrl :: js_string
  value' :: MsgExecuteContract

text \<open>The two fields of class \<^verbatim>\<open>TemplateMessageComposer\<close> (lines 19-20).\<close>

record TemplateMessageComposer =
  sender :: js_string
  contractAddress :: js_string

text \<open>
  The four functions the method calls and the file only imports. Each may throw, so each
  returns an error of the caller's choice of type \<open>'e\<close> or a value.
\<close>

record 'e deps =
  AppExecuteMsgFactory_executeApp :: "json \<Rightarrow> 'e + json"
  JSON_stringify :: "json \<Rightarrow> 'e + js_string"
  encoding_toUtf8 :: "js_string \<Rightarrow> 'e + bytes"
  MsgExecuteContract_fromPartial :: "MsgExecuteContract \<Rightarrow> 'e + MsgExecuteContract"

section \<open>The constructor and the method\<close>

text \<open>
  Lines 22-26. The third statement rebinds the arrow function \<^verbatim>\<open>updateConfig\<close>, whose
  \<^verbatim>\<open>this\<close> is already the instance; it touches neither string field.
\<close>

definition new_TemplateMessageComposer :: "js_string \<Rightarrow> js_string \<Rightarrow> TemplateMessageComposer" where
  "new_TemplateMessageComposer sender_arg contractAddress_arg =
     \<lparr>TemplateMessageComposer.sender = sender_arg, contractAddress = contractAddress_arg\<rparr>"

text \<open>
  Lines 28-42, in the order JavaScript evaluates them: the literal \<^verbatim>\<open>msg\<close>, the call of
  \<^verbatim>\<open>executeApp\<close>, then inside the returned literal \<^verbatim>\<open>JSON.stringify\<close>,
  \<^verbatim>\<open>toUtf8\<close> and \<^verbatim>\<open>fromPartial\<close>. An exception of an imported function
  leaves the method at once. The method has no \<^verbatim>\<open>throw\<close> of its own.
\<close>

definition updateConfig_msg :: json where
  "updateConfig_msg = JObject [(js ''update_config'', JObject [])]"

definition updateConfig ::
  "'e deps \<Rightarrow> TemplateMessageComposer \<Rightarrow> Coin list option \<Rightarrow> 'e + MsgExecuteContractEncodeObject" where
  "updateConfig D this funds_arg =
     (case AppExecuteMsgFactory_executeApp D updateConfig_msg of
        Inl e \<Rightarrow> Inl e
      | Inr moduleMsg \<Rightarrow>
     (case JSON_stringify D moduleMsg of
        Inl e \<Rightarrow> Inl e
      | Inr text \<Rightarrow>
     (case encoding_toUtf8 D text of
        Inl e \<Rightarrow> Inl e
      | Inr payload \<Rightarrow>
     (case MsgExecuteContract_fromPartial D
             \<lparr>MsgExecuteContract.sender = TemplateMessageComposer.sender this,
              contract = contractAddress this,
              msg = payload,
              funds = funds_arg\<rparr> of
        Inl e \<Rightarrow> Inl e
      | Inr v \<Rightarrow>
          Inr \<lparr>typeUrl = js ''/cosmwasm.wasm.v1.MsgExecuteContract'', value' = v\<rparr>))))"

section \<open>The imported functions\<close>

subsection \<open>\<^verbatim>\<open>JSON.stringify\<close>\<close>

text \<open>
  The built-in of the language, on the values of type \<open>json\<close>, with no indentation
  argument. A string is quoted as ECMAScript's QuoteJSONString does: the two-character
  escapes, \<^verbatim>\<open>\uXXXX\<close> in lower-case hexadecimal for the other control characters and
  for a surrogate that has no partner, everything else as it is.
\<close>

definition is_high :: "16 word \<Rightarrow> bool" where
  "is_high u \<longleftrightarrow> 0xD800 \<le> u \<and> u \<le> 0xDBFF"

definition is_low :: "16 word \<Rightarrow> bool" where
  "is_low u \<longleftrightarrow> 0xDC00 \<le> u \<and> u \<le> 0xDFFF"

definition hex_digit :: "nat \<Rightarrow> 16 word" where
  "hex_digit d = (if d < 10 then of_nat (48 + d) else of_nat (87 + d))"

definition unicode_escape :: "16 word \<Rightarrow> js_string" where
  "unicode_escape u =
     [0x5C, 0x75,
      hex_digit (unat u div 4096), hex_digit (unat u div 256 mod 16),
      hex_digit (unat u div 16 mod 16), hex_digit (unat u mod 16)]"

definition quote_unit :: "16 word \<Rightarrow> js_string" where
  "quote_unit u =
     (if u = 0x08 then [0x5C, 0x62]
      else if u = 0x09 then [0x5C, 0x74]
      else if u = 0x0A then [0x5C, 0x6E]
      else if u = 0x0C then [0x5C, 0x66]
      else if u = 0x0D then [0x5C, 0x72]
      else if u = 0x22 then [0x5C, 0x22]
      else if u = 0x5C then [0x5C, 0x5C]
      else if u < 0x20 \<or> is_high u \<or> is_low u then unicode_escape u
      else [u])"

fun quote_body :: "js_string \<Rightarrow> js_string" where
  "quote_body [] = []"
| "quote_body [u] = quote_unit u"
| "quote_body (u # l # rest) =
     (if is_high u \<and> is_low l then u # l # quote_body rest
      else quote_unit u @ quote_body (l # rest))"

definition quote :: "js_string \<Rightarrow> js_string" where
  "quote s = 0x22 # quote_body s @ [0x22]"

fun commas :: "js_string list \<Rightarrow> js_string" where
  "commas [] = []"
| "commas [x] = x"
| "commas (x # y # ys) = x @ 0x2C # commas (y # ys)"

fun stringify :: "json \<Rightarrow> js_string" where
  "stringify JNull = js ''null''"
| "stringify (JBool b) = (if b then js ''true'' else js ''false'')"
| "stringify (JString s) = quote s"
| "stringify (JArray vs) = 0x5B # commas (map stringify vs) @ [0x5D]"
| "stringify (JObject ms) =
     0x7B # commas (map (\<lambda>(k, v). quote k @ 0x3A # stringify v) ms) @ [0x7D]"

subsection \<open>\<^verbatim>\<open>toUtf8\<close> of @cosmjs/encoding\<close>

text \<open>
  Modelled from the spec: \<^verbatim>\<open>toUtf8\<close> is imported from @cosmjs/encoding and is not in
  the file; section 4.1 step 3 says the wrapped payload is serialised "to a UTF-8 JSON byte
  sequence". The model is the UTF-8 encoder of the platform's \<^verbatim>\<open>TextEncoder\<close>: the
  code units are read as code points, a surrogate pair as one and a surrogate with no partner
  as U+FFFD, and every code point is written in one to four bytes.
\<close>

definition scalar :: "16 word \<Rightarrow> nat" where
  "scalar u = (if is_high u \<or> is_low u then 0xFFFD else unat u)"

fun code_points :: "js_string \<Rightarrow> nat list" where
  "code_points [] = []"
| "code_points [u] = [scalar u]"
| "code_points (u # l # rest) =
     (if is_high u \<and> is_low l
      then (0x10000 + (unat u - 0xD800) * 0x400 + (unat l - 0xDC00)) # code_points rest
      else scalar u # code_points (l # rest))"

definition utf8_bytes :: "nat \<Rightarrow> bytes" where
  "utf8_bytes c =
     (if c < 0x80 then [of_nat c]
      else if c < 0x800 then [of_nat (0xC0 + c div 64), of_nat (0x80 + c mod 64)]
      else if c < 0x10000 then
        [of_nat (0xE0 + c div 4096), of_nat (0x80 + c div 64 mod 64), of_nat (0x80 + c mod 64)]
      else
        [of_nat (0xF0 + c div 262144), of_nat (0x80 + c div 4096 mod 64),
         of_nat (0x80 + c div 64 mod 64), of_nat (0x80 + c mod 64)])"

definition toUtf8 :: "js_string \<Rightarrow> bytes" where
  "toUtf8 s = concat (map utf8_bytes (code_points s))"

subsection \<open>\<^verbatim>\<open>AppExecuteMsgFactory.executeApp\<close> of @abstract-money/abstract.js\<close>

text \<open>
  Modelled from the spec: \<^verbatim>\<open>AppExecuteMsgFactory.executeApp\<close> is imported from
  @abstract-money/abstract.js and is not in the file. Section 4.1 step 2: the outer
  envelope "nests the inner action under a well-known key", a fixed transformation. The
  spec leaves the key open, so it is the parameter \<open>key\<close>.
\<close>

definition executeApp :: "js_string \<Rightarrow> json \<Rightarrow> json" where
  "executeApp key request = JObject [(key, request)]"

subsection \<open>\<^verbatim>\<open>MsgExecuteContract.fromPartial\<close> of cosmjs-types\<close>

text \<open>
  Modelled from the spec: \<^verbatim>\<open>MsgExecuteContract.fromPartial\<close> is imported from
  cosmjs-types and is not in the file. Section 4.1 step 4 and section 6: the value is "a
  structured record containing sender, contract address, the serialized byte sequence, and
  the (possibly absent) fund sequence", and "the composer only populates this record". So
  the model returns the fields it is given.
\<close>

definition fromPartial :: "MsgExecuteContract \<Rightarrow> MsgExecuteContract" where
  "fromPartial object =
     \<lparr>MsgExecuteContract.sender = MsgExecuteContract.sender object,
      contract = contract object, msg = msg object, funds = funds object\<rparr>"

text \<open>The four models together; none of them throws.\<close>

definition modelled :: "js_string \<Rightarrow> 'e deps" where
  "modelled key =
     \<lparr>AppExecuteMsgFactory_executeApp = (\<lambda>request. Inr (executeApp key request)),
      JSON_stringify = (\<lambda>v. Inr (stringify v)),
      encoding_toUtf8 = (\<lambda>s. Inr (toUtf8 s)),
      MsgExecuteContract_fromPartial = (\<lambda>object. Inr (fromPartial object))\<rparr>"

section \<open>Calls on an instance\<close>

text \<open>
  A call as a step on what it could change: the instance and the array passed as
  \<^verbatim>\<open>_funds\<close>. The body of \<^verbatim>\<open>updateConfig\<close> assigns to no field of \<^verbatim>\<open>this\<close>,
  hands \<^verbatim>\<open>this\<close> to no function and calls no mutating method on \<^verbatim>\<open>_funds\<close>; it
  only places \<^verbatim>\<open>_funds\<close> in the literal given to \<^verbatim>\<open>fromPartial\<close>. The imported
  functions are functions of their arguments here and write to none of them. So the step
  returns the instance and the argument as it found them, next to the result of the call.
\<close>

definition updateConfig_call ::
  "'e deps \<Rightarrow> TemplateMessageComposer \<times> Coin list option \<Rightarrow>
   ('e + MsgExecuteContractEncodeObject) \<times> TemplateMessageComposer \<times> Coin list option" where
  "updateConfig_call D st =
     (case st of (this, funds_arg) \<Rightarrow> (updateConfig D this funds_arg, this, funds_arg))"

text \<open>Several calls in a row on one instance, each with its own argument.\<close>

fun calls ::
  "'e deps \<Rightarrow> TemplateMessageComposer \<Rightarrow> Coin list option list \<Rightarrow>
   ('e + MsgExecuteContractEncodeObject) list \<times> TemplateMessageComposer \<times> Coin list option list" where
  "calls D this [] = ([], this, [])"
| "calls D this (f # fs) =
     (case updateConfig_call D (this, f) of
        (r, this', f') \<Rightarrow>
          (case calls D this' fs of (rs, this'', fs') \<Rightarrow> (r # rs, this'', f' # fs')))"

section \<open>Reading the payload back\<close>

text \<open>
  Modelled from the spec: section 8 speaks of "decoding the UTF-8 byte payload as JSON", and
  no decoder is in the file. The one here is written for that sentence: a strict UTF-8
  decoder (what \<^verbatim>\<open>fromUtf8\<close> of @cosmjs/encoding does with \<^verbatim>\<open>TextDecoder\<close> in
  fatal mode) followed by \<^verbatim>\<open>JSON.parse\<close>.
\<close>

subsection \<open>UTF-8 to UTF-16\<close>

text \<open>
  A byte sequence is read as code points, \<open>None\<close> for a stray or missing continuation
  byte, an overlong form, a surrogate or a value above U+10FFFF; a code point above U+FFFF
  becomes a surrogate pair.
\<close>

definition utf16_units :: "nat \<Rightarrow> js_string" where
  "utf16_units c =
     (if c < 0x10000 then [of_nat c]
      else [of_nat (0xD800 + (c - 0x10000) div 1024), of_nat (0xDC00 + (c - 0x10000) mod 1024)])"

definition continuation :: "8 word \<Rightarrow> bool" where
  "continuation b \<longleftrightarrow> 0x80 \<le> unat b \<and> unat b \<le> 0xBF"

fun utf8_scalars :: "bytes \<Rightarrow> nat list option" where
  "utf8_scalars [] = Some []"
| "utf8_scalars (b # bs) =
     (if unat b < 0x80 then map_option ((#) (unat b)) (utf8_scalars bs)
      else if unat b < 0xC0 then None
      else if unat b < 0xE0 then
        (case bs of
           b1 # rest \<Rightarrow>
             (let c = (unat b - 0xC0) * 64 + (unat b1 - 0x80)
              in if continuation b1 \<and> 0x80 \<le> c
                 then map_option ((#) c) (utf8_scalars rest) else None)
         | _ \<Rightarrow> None)
      else if unat b < 0xF0 then
        (case bs of
           b1 # b2 # rest \<Rightarrow>
             (let c = (unat b - 0xE0) * 4096 + (unat b1 - 0x80) * 64 + (unat b2 - 0x80)
              in if continuation b1 \<and> continuation b2 \<and> 0x800 \<le> c \<and>
                    \<not> (0xD800 \<le> c \<and> c \<le> 0xDFFF)
                 then map_option ((#) c) (utf8_scalars rest) else None)
         | _ \<Rightarrow> None)
      else if unat b < 0xF8 then
        (case bs of
           b1 # b2 # b3 # rest \<Rightarrow>
             (let c = (unat b - 0xF0) * 262144 + (unat b1 - 0x80) * 4096 +
                      (unat b2 - 0x80) * 64 + (unat b3 - 0x80)
              in if continuation b1 \<and> continuation b2 \<and> continuation b3 \<and>
                    0x10000 \<le> c \<and> c \<le> 0x10FFFF
                 then map_option ((#) c) (utf8_scalars rest) else None)
         | _ \<Rightarrow> None)
      else None)"

definition fromUtf8 :: "bytes \<Rightarrow> js_string option" where
  "fromUtf8 bs = map_option (\<lambda>cs. concat (map utf16_units cs)) (utf8_scalars bs)"

subsection \<open>\<^verbatim>\<open>JSON.parse\<close>\<close>

text \<open>
  The JSON grammar on code units: white space, objects, arrays, strings with their escapes
  and the three literals. A number is not read (the result is \<open>None\<close>), as \<open>json\<close> has
  none. The members of an object are kept as they are written. The parser descends on a
  counter; \<open>JSON_parse\<close> starts it at the length of the text, which bounds the nesting.
\<close>

fun skip_ws :: "js_string \<Rightarrow> js_string" where
  "skip_ws [] = []"
| "skip_ws (u # us) =
     (if u = 0x20 \<or> u = 0x09 \<or> u = 0x0A \<or> u = 0x0D then skip_ws us else u # us)"

definition hex_value :: "16 word \<Rightarrow> nat option" where
  "hex_value u =
     (if 0x30 \<le> unat u \<and> unat u \<le> 0x39 then Some (unat u - 0x30)
      else if 0x61 \<le> unat u \<and> unat u \<le> 0x66 then Some (unat u - 0x57)
      else if 0x41 \<le> unat u \<and> unat u \<le> 0x46 then Some (unat u - 0x37)
      else None)"

definition hex4 :: "16 word \<Rightarrow> 16 word \<Rightarrow> 16 word \<Rightarrow> 16 word \<Rightarrow> 16 word option" where
  "hex4 a b c d =
     (case hex_value a of None \<Rightarrow> None | Some x \<Rightarrow>
     (case hex_value b of None \<Rightarrow> None | Some y \<Rightarrow>
     (case hex_value c of None \<Rightarrow> None | Some z \<Rightarrow>
     (case hex_value d of None \<Rightarrow> None | Some w \<Rightarrow>
        Some (of_nat (x * 4096 + y * 256 + z * 16 + w))))))"

definition unescape :: "16 word \<Rightarrow> 16 word option" where
  "unescape e =
     (if e = 0x22 then Some 0x22
      else if e = 0x5C then Some 0x5C
      else if e = 0x2F then Some 0x2F
      else if e = 0x62 then Some 0x08
      else if e = 0x66 then Some 0x0C
      else if e = 0x6E then Some 0x0A
      else if e = 0x72 then Some 0x0D
      else if e = 0x74 then Some 0x09
      else None)"

definition cons_unit :: "16 word \<Rightarrow> (js_string \<times> js_string) option \<Rightarrow> (js_string \<times> js_string) option" where
  "cons_unit u r = (case r of None \<Rightarrow> None | Some (s, rest) \<Rightarrow> Some (u # s, rest))"

fun parse_string_body :: "js_string \<Rightarrow> (js_string \<times> js_string) option" where
  "parse_string_body [] = None"
| "parse_string_body (u # us) =
     (if u = 0x22 then Some ([], us)
      else if u = 0x5C then
        (case us of
           [] \<Rightarrow> None
         | e # rest \<Rightarrow>
             if e = 0x75 then
               (case rest of
                  a # b # c # d # rest' \<Rightarrow>
                    (case hex4 a b c d of
                       None \<Rightarrow> None
                     | Some x \<Rightarrow> cons_unit x (parse_string_body rest'))
                | _ \<Rightarrow> None)
             else
               (case unescape e of
                  None \<Rightarrow> None
                | Some x \<Rightarrow> cons_unit x (parse_string_body rest)))
      else if u < 0x20 then None
      else cons_unit u (parse_string_body us))"

fun parse_value :: "nat \<Rightarrow> js_string \<Rightarrow> (json \<times> js_string) option"
  and parse_members :: "nat \<Rightarrow> js_string \<Rightarrow> ((js_string \<times> json) list \<times> js_string) option"
  and parse_elements :: "nat \<Rightarrow> js_string \<Rightarrow> (json list \<times> js_string) option" where
  "parse_value 0 s = None"
| "parse_value (Suc n) s =
     (case skip_ws s of
        [] \<Rightarrow> None
      | u # us \<Rightarrow>
          if u = 0x7B then
            (case skip_ws us of
               [] \<Rightarrow> None
             | c # rest \<Rightarrow>
                 if c = 0x7D then Some (JObject [], rest)
                 else (case parse_members n us of
                         None \<Rightarrow> None
                       | Some (ms, r) \<Rightarrow> Some (JObject ms, r)))
          else if u = 0x5B then
            (case skip_ws us of
               [] \<Rightarrow> None
             | c # rest \<Rightarrow>
                 if c = 0x5D then Some (JArray [], rest)
                 else (case parse_elements n us of
                         None \<Rightarrow> None
                       | Some (vs, r) \<Rightarrow> Some (JArray vs, r)))
          else if u = 0x22 then
            (case parse_string_body us of
               None \<Rightarrow> None
             | Some (str, r) \<Rightarrow> Some (JString str, r))
          else if take 4 (u # us) = js ''true'' then Some (JBool True, drop 4 (u # us))
          else if take 5 (u # us) = js ''false'' then Some (JBool False, drop 5 (u # us))
          else if take 4 (u # us) = js ''null'' then Some (JNull, drop 4 (u # us))
          else None)"
| "parse_members 0 s = None"
| "parse_members (Suc n) s =
     (case skip_ws s of
        [] \<Rightarrow> None
      | q # s1 \<Rightarrow>
          if q = 0x22 then
            (case parse_string_body s1 of
               None \<Rightarrow> None
             | Some (k, s2) \<Rightarrow>
                 (case skip_ws s2 of
                    [] \<Rightarrow> None
                  | c # s3 \<Rightarrow>
                      if c = 0x3A then
                        (case parse_value n s3 of
                           None \<Rightarrow> None
                         | Some (v, s4) \<Rightarrow>
                             (case skip_ws s4 of
                                [] \<Rightarrow> None
                              | d # s5 \<Rightarrow>
                                  if d = 0x7D then Some ([(k, v)], s5)
                                  else if d = 0x2C then
                                    (case parse_members n s5 of
                                       None \<Rightarrow> None
                                     | Some (ms, s6) \<Rightarrow> Some ((k, v) # ms, s6))
                                  else None))
                      else None))
          else None)"
| "parse_elements 0 s = None"
| "parse_elements (Suc n) s =
     (case parse_value n s of
        None \<Rightarrow> None
      | Some (v, s1) \<Rightarrow>
          (case skip_ws s1 of
             [] \<Rightarrow> None
           | d # s2 \<Rightarrow>
               if d = 0x5D then Some ([v], s2)
               else if d = 0x2C then
                 (case parse_elements n s2 of
                    None \<Rightarrow> None
                  | Some (vs, s3) \<Rightarrow> Some (v # vs, s3))
               else None))"

definition JSON_parse :: "js_string \<Rightarrow> json option" where
  "JSON_parse s =
     (case parse_value (length s) s of
        None \<Rightarrow> None
      | Some (v, rest) \<Rightarrow> if skip_ws rest = [] then Some v else None)"

definition decode_payload :: "bytes \<Rightarrow> json option" where
  "decode_payload bs = (case fromUtf8 bs of None \<Rightarrow> None | Some s \<Rightarrow> JSON_parse s)"

section \<open>Predicates of the proofs\<close>

text \<open>
  A Unicode scalar value, and a string in which every surrogate is one of a pair: the
  strings that UTF-8 encodes without loss.
\<close>

definition valid_scalar :: "nat \<Rightarrow> bool" where
  "valid_scalar c \<longleftrightarrow> c < 0x110000 \<and> \<not> (0xD800 \<le> c \<and> c \<le> 0xDFFF)"

fun well_formed :: "js_string \<Rightarrow> bool" where
  "well_formed [] = True"
| "well_formed [u] = (\<not> (is_high u \<or> is_low u))"
| "well_formed (u # l # rest) =
     (if is_high u \<and> is_low l then well_formed rest
      else \<not> (is_high u \<or> is_low u) \<and> well_formed (l # rest))"


section \<open>UTF-8 and UTF-16 round trip\<close>

lemma div_64_digits: "(c::nat) div 64 = c div 4096 * 64 + c div 64 mod 64"
proof -
  have "c div (64 * 64) = c div 64 div 64" by (rule div_mult2_eq)
  then have e: "c div 4096 = c div 64 div 64" by simp
  show ?thesis unfolding e by (simp only: div_mult_mod_eq)
qed

lemma utf8_digits3: "c div 4096 * 4096 + c div 64 mod 64 * 64 + c mod 64 = (c::nat)"
proof -
  have "c div 64 * 64 = c div 4096 * 4096 + c div 64 mod 64 * 64"
    using arg_cong [OF div_64_digits [of c], of "\<lambda>x. x * 64"] by (simp add: algebra_simps)
  with div_mult_mod_eq [of c 64] show ?thesis by simp
qed

lemma utf8_digits4:
  "c div 262144 * 262144 + c div 4096 mod 64 * 4096 + c div 64 mod 64 * 64 + c mod 64 = (c::nat)"
proof -
  have "c div 4096 div 64 = c div (4096 * 64)" by (rule div_mult2_eq [symmetric])
  then have e: "c div 262144 = c div 4096 div 64" by simp
  have 1: "c div 4096 = c div 262144 * 64 + c div 4096 mod 64"
    unfolding e by (simp only: div_mult_mod_eq)
  have "c div 4096 * 4096 = c div 262144 * 262144 + c div 4096 mod 64 * 4096"
    using arg_cong [OF 1, of "\<lambda>x. x * 4096"] by (simp add: algebra_simps)
  with utf8_digits3 [of c] show ?thesis by simp
qed


lemma hex_digits4:
  "c div 4096 * 4096 + c div 256 mod 16 * 256 + c div 16 mod 16 * 16 + c mod 16 = (c::nat)"
proof -
  have e1: "c div 256 = c div 16 div 16" using div_mult2_eq [of c 16 16] by simp
  have e2: "c div 4096 = c div 256 div 16" using div_mult2_eq [of c 256 16] by simp
  have 1: "c div 16 = c div 256 * 16 + c div 16 mod 16"
    unfolding e1 by (simp only: div_mult_mod_eq)
  have 2: "c div 256 = c div 4096 * 16 + c div 256 mod 16"
    unfolding e2 by (simp only: div_mult_mod_eq)
  have "c div 256 * 256 = c div 4096 * 4096 + c div 256 mod 16 * 256"
    using arg_cong [OF 2, of "\<lambda>x. x * 256"] by (simp add: algebra_simps)
  moreover have "c div 16 * 16 = c div 256 * 256 + c div 16 mod 16 * 16"
    using arg_cong [OF 1, of "\<lambda>x. x * 16"] by (simp add: algebra_simps)
  ultimately show ?thesis using div_mult_mod_eq [of c 16] by simp
qed

lemma unat_of_nat_byte: "n < 256 \<Longrightarrow> unat (of_nat n :: 8 word) = n"
  by (simp add: unat_of_nat)

lemma unat_of_nat_unit: "n < 65536 \<Longrightarrow> unat (of_nat n :: 16 word) = n"
  by (simp add: unat_of_nat)

lemma unat_unit_bound: "unat (u :: 16 word) < 65536"
  using unsigned_less [of u, where ?'a = nat] by simp

lemma decode_1:
  assumes "unat b0 = n0" "n0 < 0x80"
  shows "utf8_scalars (b0 # bs) = map_option ((#) n0) (utf8_scalars bs)"
  using assms by simp

lemma decode_2:
  assumes "unat b0 = 0xC0 + x" "unat b1 = 0x80 + y" "x < 32" "y < 64" "2 \<le> x"
  shows "utf8_scalars (b0 # b1 # bs) = map_option ((#) (x * 64 + y)) (utf8_scalars bs)"
  using assms by (simp add: continuation_def)

lemma decode_3:
  assumes "unat b0 = 0xE0 + x" "unat b1 = 0x80 + y" "unat b2 = 0x80 + z"
    "x < 16" "y < 64" "z < 64" "0x800 \<le> x * 4096 + y * 64 + z"
    "\<not> (0xD800 \<le> x * 4096 + y * 64 + z \<and> x * 4096 + y * 64 + z \<le> 0xDFFF)"
  shows "utf8_scalars (b0 # b1 # b2 # bs) =
    map_option ((#) (x * 4096 + y * 64 + z)) (utf8_scalars bs)"
  using assms by (simp add: continuation_def)

lemma decode_4:
  assumes "unat b0 = 0xF0 + x" "unat b1 = 0x80 + y" "unat b2 = 0x80 + z" "unat b3 = 0x80 + w"
    "x < 8" "y < 64" "z < 64" "w < 64" "0x10000 \<le> x * 262144 + y * 4096 + z * 64 + w"
    "x * 262144 + y * 4096 + z * 64 + w \<le> 0x10FFFF"
  shows "utf8_scalars (b0 # b1 # b2 # b3 # bs) =
    map_option ((#) (x * 262144 + y * 4096 + z * 64 + w)) (utf8_scalars bs)"
  using assms by (simp add: continuation_def)

lemma utf8_scalars_bytes:
  assumes "valid_scalar c"
  shows "utf8_scalars (utf8_bytes c @ bs) = map_option ((#) c) (utf8_scalars bs)"
proof -
  consider "c < 0x80" | "0x80 \<le> c" "c < 0x800" | "0x800 \<le> c" "c < 0x10000"
    | "0x10000 \<le> c" "c < 0x110000"
    using assms unfolding valid_scalar_def by atomize_elim arith
  then show ?thesis
  proof cases
    case 1
    then have "unat (of_nat c :: 8 word) = c" by (simp add: unat_of_nat_byte)
    from decode_1 [OF this 1] 1 show ?thesis by (simp add: utf8_bytes_def)
  next
    case 2
    define x y where "x = c div 64" and "y = c mod 64"
    have xy: "x < 32" "y < 64" "2 \<le> x" "x * 64 + y = c"
      using 2 by (simp_all add: x_def y_def)
    have "utf8_bytes c = [of_nat (0xC0 + x), of_nat (0x80 + y)]"
      using 2 by (simp add: utf8_bytes_def x_def y_def)
    moreover have "utf8_scalars (of_nat (0xC0 + x) # of_nat (0x80 + y) # bs) =
        map_option ((#) (x * 64 + y)) (utf8_scalars bs)"
    proof (rule decode_2)
      show "unat (of_nat (0xC0 + x) :: 8 word) = 0xC0 + x"
        by (rule unat_of_nat_byte) (use xy in simp)
      show "unat (of_nat (0x80 + y) :: 8 word) = 0x80 + y"
        by (rule unat_of_nat_byte) (use xy in simp)
    qed (use xy in simp_all)
    ultimately show ?thesis by (simp only: xy append.simps)
  next
    case 3
    define x y z where "x = c div 4096" and "y = c div 64 mod 64" and "z = c mod 64"
    have xy: "x < 16" "y < 64" "z < 64"
      using 3 by (simp_all add: x_def y_def z_def)
    have c: "x * 4096 + y * 64 + z = c"
      unfolding x_def y_def z_def by (rule utf8_digits3)
    have "utf8_bytes c = [of_nat (0xE0 + x), of_nat (0x80 + y), of_nat (0x80 + z)]"
      using 3 by (simp add: utf8_bytes_def x_def y_def z_def)
    moreover have "utf8_scalars (of_nat (0xE0 + x) # of_nat (0x80 + y) # of_nat (0x80 + z) # bs) =
        map_option ((#) (x * 4096 + y * 64 + z)) (utf8_scalars bs)"
    proof (rule decode_3)
      show "unat (of_nat (0xE0 + x) :: 8 word) = 0xE0 + x"
        by (rule unat_of_nat_byte) (use xy in simp)
      show "unat (of_nat (0x80 + y) :: 8 word) = 0x80 + y"
        by (rule unat_of_nat_byte) (use xy in simp)
      show "unat (of_nat (0x80 + z) :: 8 word) = 0x80 + z"
        by (rule unat_of_nat_byte) (use xy in simp)
      show "0x800 \<le> x * 4096 + y * 64 + z" unfolding c by (fact 3)
      show "\<not> (0xD800 \<le> x * 4096 + y * 64 + z \<and> x * 4096 + y * 64 + z \<le> 0xDFFF)"
        unfolding c using assms by (simp add: valid_scalar_def)
    qed (use xy in simp_all)
    ultimately show ?thesis by (simp only: c append.simps)
  next
    case 4
    define x y z w where "x = c div 262144" and "y = c div 4096 mod 64"
      and "z = c div 64 mod 64" and "w = c mod 64"
    have xy: "x < 8" "y < 64" "z < 64" "w < 64"
      using 4 by (simp_all add: x_def y_def z_def w_def)
    have c: "x * 262144 + y * 4096 + z * 64 + w = c"
      unfolding x_def y_def z_def w_def by (rule utf8_digits4)
    have "utf8_bytes c =
        [of_nat (0xF0 + x), of_nat (0x80 + y), of_nat (0x80 + z), of_nat (0x80 + w)]"
      using 4 by (simp add: utf8_bytes_def x_def y_def z_def w_def)
    moreover have "utf8_scalars (of_nat (0xF0 + x) # of_nat (0x80 + y) # of_nat (0x80 + z) #
        of_nat (0x80 + w) # bs) =
        map_option ((#) (x * 262144 + y * 4096 + z * 64 + w)) (utf8_scalars bs)"
    proof (rule decode_4)
      show "unat (of_nat (0xF0 + x) :: 8 word) = 0xF0 + x"
        by (rule unat_of_nat_byte) (use xy in simp)
      show "unat (of_nat (0x80 + y) :: 8 word) = 0x80 + y"
        by (rule unat_of_nat_byte) (use xy in simp)
      show "unat (of_nat (0x80 + z) :: 8 word) = 0x80 + z"
        by (rule unat_of_nat_byte) (use xy in simp)
      show "unat (of_nat (0x80 + w) :: 8 word) = 0x80 + w"
        by (rule unat_of_nat_byte) (use xy in simp)
      show "0x10000 \<le> x * 262144 + y * 4096 + z * 64 + w" unfolding c by (fact 4)
      show "x * 262144 + y * 4096 + z * 64 + w \<le> 0x10FFFF" unfolding c using 4 by simp
    qed (use xy in simp_all)
    ultimately show ?thesis by (simp only: c append.simps)
  qed
qed


lemma utf8_scalars_concat:
  "list_all valid_scalar cs \<Longrightarrow> utf8_scalars (concat (map utf8_bytes cs)) = Some cs"
  by (induction cs) (simp_all add: utf8_scalars_bytes)

lemma is_high_bounds: "is_high u \<longleftrightarrow> 0xD800 \<le> unat u \<and> unat u \<le> 0xDBFF"
  by (simp add: is_high_def word_le_nat_alt)

lemma is_low_bounds: "is_low u \<longleftrightarrow> 0xDC00 \<le> unat u \<and> unat u \<le> 0xDFFF"
  by (simp add: is_low_def word_le_nat_alt)

lemma valid_scalar_scalar: "valid_scalar (scalar u)"
  using unat_unit_bound [of u]
  unfolding valid_scalar_def scalar_def is_high_bounds is_low_bounds
  by (cases "55296 \<le> unat u \<and> unat u \<le> 57343"; simp) linarith+

lemma valid_scalar_pair:
  assumes "is_high u" "is_low l"
  shows "valid_scalar (0x10000 + (unat u - 0xD800) * 0x400 + (unat l - 0xDC00))"
proof -
  have "unat u - 0xD800 \<le> 0x3FF" "unat l - 0xDC00 \<le> 0x3FF"
    using assms unfolding is_high_bounds is_low_bounds by linarith+
  then have "(unat u - 0xD800) * 0x400 + (unat l - 0xDC00) \<le> 0x3FF * 0x400 + 0x3FF"
    by (intro add_mono mult_le_mono1)
  then show ?thesis by (simp add: valid_scalar_def)
qed

lemma code_points_valid: "list_all valid_scalar (code_points s)"
  by (induction s rule: code_points.induct)
    (simp_all add: valid_scalar_scalar valid_scalar_pair)

lemma utf16_units_scalar:
  "\<not> (is_high u \<or> is_low u) \<Longrightarrow> utf16_units (scalar u) = [u]"
  using unat_unit_bound [of u] by (simp add: utf16_units_def scalar_def)

lemma utf16_units_pair:
  assumes "is_high u" "is_low l"
  shows "utf16_units (0x10000 + (unat u - 0xD800) * 0x400 + (unat l - 0xDC00)) = [u, l]"
proof -
  define x y where "x = unat u - 0xD800" and "y = unat l - 0xDC00"
  have x: "0xD800 + x = unat u" and y: "0xDC00 + y = unat l" and "y < 1024"
    using assms unfolding x_def y_def is_high_bounds is_low_bounds by linarith+
  then have "(x * 1024 + y) div 1024 = x" "(x * 1024 + y) mod 1024 = y"
    by simp_all
  then have "utf16_units (0x10000 + x * 0x400 + y) = [of_nat (0xD800 + x), of_nat (0xDC00 + y)]"
    by (simp add: utf16_units_def del: of_nat_add)
  then show ?thesis
    unfolding x y by (simp add: x_def y_def)
qed

lemma utf16_code_points:
  "well_formed s \<Longrightarrow> concat (map utf16_units (code_points s)) = s"
  by (induction s rule: code_points.induct)
    (simp_all add: utf16_units_scalar utf16_units_pair)

lemma fromUtf8_toUtf8: "well_formed s \<Longrightarrow> fromUtf8 (toUtf8 s) = Some s"
  by (simp add: fromUtf8_def toUtf8_def utf8_scalars_concat code_points_valid utf16_code_points)

section \<open>Quoting and parsing a string\<close>

lemma plain_well_formed:
  "\<forall>u\<in>set s. \<not> (is_high u \<or> is_low u) \<Longrightarrow> well_formed s"
  by (induction s rule: well_formed.induct) simp_all

lemma well_formed_append:
  "well_formed a \<Longrightarrow> well_formed b \<Longrightarrow> well_formed (a @ b)"
proof (induction a rule: well_formed.induct)
  case (2 u)
  then show ?case by (cases b) simp_all
qed (simp_all split: if_splits)

lemma unat_hex_digit:
  "d < 16 \<Longrightarrow> unat (hex_digit d) = (if d < 10 then 48 + d else 87 + d)"
  by (simp add: hex_digit_def unat_of_nat_unit del: of_nat_add)

lemma hex_value_hex_digit: "d < 16 \<Longrightarrow> hex_value (hex_digit d) = Some d"
  by (simp add: hex_value_def unat_hex_digit)

lemma hex_digit_plain: "d < 16 \<Longrightarrow> \<not> (is_high (hex_digit d) \<or> is_low (hex_digit d))"
  by (simp add: is_high_bounds is_low_bounds unat_hex_digit)

lemma hex_digits_of_unit:
  "unat (u :: 16 word) div 4096 < 16" "unat u div 256 mod 16 < 16"
  "unat u div 16 mod 16 < 16" "unat u mod 16 < 16"
  using unat_unit_bound [of u] by simp_all

lemma unicode_escape_plain:
  "\<forall>x\<in>set (unicode_escape u). \<not> (is_high x \<or> is_low x)"
proof -
  have "\<not> (is_high (0x5C :: 16 word) \<or> is_low (0x5C :: 16 word))"
    "\<not> (is_high (0x75 :: 16 word) \<or> is_low (0x75 :: 16 word))"
    by (simp_all add: is_high_def is_low_def)
  then show ?thesis
    using hex_digit_plain [OF hex_digits_of_unit(1), of u]
      hex_digit_plain [OF hex_digits_of_unit(2), of u]
      hex_digit_plain [OF hex_digits_of_unit(3), of u]
      hex_digit_plain [OF hex_digits_of_unit(4), of u]
    by (simp add: unicode_escape_def)
qed

lemma quote_unit_plain: "\<forall>x\<in>set (quote_unit u). \<not> (is_high x \<or> is_low x)"
  using unicode_escape_plain [of u]
  by (simp add: quote_unit_def) (simp add: is_high_def is_low_def)

lemma well_formed_quote_body: "well_formed (quote_body s)"
  by (induction s rule: quote_body.induct)
    (simp_all add: plain_well_formed quote_unit_plain well_formed_append)

lemma hex4_escape:
  "hex4 (hex_digit (unat u div 4096)) (hex_digit (unat u div 256 mod 16))
     (hex_digit (unat u div 16 mod 16)) (hex_digit (unat u mod 16)) = Some u"
  by (simp add: hex4_def hex_value_hex_digit hex_digits_of_unit hex_digits4)

lemma parse_unicode_escape:
  "parse_string_body (unicode_escape u @ t) = cons_unit u (parse_string_body t)"
  by (simp add: unicode_escape_def hex4_escape)

lemma parse_quote_unit:
  "parse_string_body (quote_unit u @ t) = cons_unit u (parse_string_body t)"
  by (simp add: quote_unit_def parse_unicode_escape unescape_def)

lemma parse_literal:
  "u \<noteq> 0x22 \<Longrightarrow> u \<noteq> 0x5C \<Longrightarrow> \<not> u < 0x20 \<Longrightarrow>
   parse_string_body (u # t) = cons_unit u (parse_string_body t)"
  by simp

lemma surrogate_literal:
  assumes "is_high u \<or> is_low u"
  shows "u \<noteq> 0x22" "u \<noteq> 0x5C" "\<not> u < 0x20"
  using assms by (auto simp: is_high_bounds is_low_bounds word_less_nat_alt)

lemma parse_quote_body:
  "parse_string_body (quote_body s @ 0x22 # rest) = Some (s, rest)"
proof (induction s rule: quote_body.induct)
  case 1
  show ?case by simp
next
  case (2 u)
  show ?case by (simp add: parse_quote_unit cons_unit_def)
next
  case (3 u l r)
  show ?case
  proof (cases "is_high u \<and> is_low l")
    case True
    then have "parse_string_body (u # l # quote_body r @ 0x22 # rest) =
        cons_unit u (cons_unit l (parse_string_body (quote_body r @ 0x22 # rest)))"
      using surrogate_literal [of u] surrogate_literal [of l]
      by (simp add: parse_literal del: parse_string_body.simps)
    with True 3 show ?thesis
      by (simp add: cons_unit_def del: parse_string_body.simps)
  next
    case False
    with 3 show ?thesis
      by (auto simp add: parse_quote_unit cons_unit_def simp del: parse_string_body.simps)
  qed
qed

section \<open>The payload of the modelled imports\<close>

lemma stringify_payload:
  "stringify (executeApp key updateConfig_msg) =
     0x7B # 0x22 # quote_body key @ 0x22 # 0x3A # 0x7B # 0x22 #
     quote_body (js ''update_config'') @ 0x22 # 0x3A # 0x7B # 0x7D # 0x7D # [0x7D]"
  by (simp add: executeApp_def updateConfig_msg_def quote_def)

lemma parse_value_payload:
  "parse_value (Suc (Suc (Suc (Suc (Suc n)))))
     (0x7B # 0x22 # quote_body k1 @ 0x22 # 0x3A # 0x7B # 0x22 #
      quote_body k2 @ 0x22 # 0x3A # 0x7B # 0x7D # 0x7D # 0x7D # rest) =
   Some (JObject [(k1, JObject [(k2, JObject [])])], rest)"
  by (simp add: parse_quote_body del: parse_string_body.simps)

lemma JSON_parse_payload:
  "JSON_parse (stringify (executeApp key updateConfig_msg)) =
     Some (JObject [(key, JObject [(js ''update_config'', JObject [])])])"
proof -
  have "5 \<le> length (stringify (executeApp key updateConfig_msg))"
    by (simp add: stringify_payload)
  then obtain n where
    "length (stringify (executeApp key updateConfig_msg)) = Suc (Suc (Suc (Suc (Suc n))))"
    by (auto simp: le_iff_add eval_nat_numeral)
  then show ?thesis
    unfolding JSON_parse_def
    using parse_value_payload [of n key "js ''update_config''" "[]"]
    by (simp add: stringify_payload)
qed

lemma well_formed_payload: "well_formed (stringify (executeApp key updateConfig_msg))"
proof -
  have plain: "well_formed [c]" if "c \<in> {0x7B, 0x22, 0x3A, 0x7D}" for c :: "16 word"
    using that by (auto simp: is_high_def is_low_def)
  have "stringify (executeApp key updateConfig_msg) =
     [0x7B] @ [0x22] @ quote_body key @ [0x22] @ [0x3A] @ [0x7B] @ [0x22] @
     quote_body (js ''update_config'') @ [0x22] @ [0x3A] @ [0x7B] @ [0x7D] @ [0x7D] @ [0x7D]"
    by (simp add: stringify_payload)
  then show ?thesis
    by (simp only: well_formed_append well_formed_quote_body plain insertI1 insertI2)
qed

lemma decode_payload_modelled:
  "decode_payload (toUtf8 (stringify (executeApp key updateConfig_msg))) =
     Some (JObject [(key, JObject [(js ''update_config'', JObject [])])])"
  by (simp add: decode_payload_def fromUtf8_toUtf8 well_formed_payload JSON_parse_payload)

section \<open>What a call returns\<close>

lemma updateConfig_Inr:
  assumes "updateConfig D this f = Inr e"
  shows "\<exists>m t b.
           AppExecuteMsgFactory_executeApp D updateConfig_msg = Inr m \<and>
           JSON_stringify D m = Inr t \<and>
           encoding_toUtf8 D t = Inr b \<and>
           MsgExecuteContract_fromPartial D
             \<lparr>MsgExecuteContract.sender = TemplateMessageComposer.sender this,
              contract = contractAddress this, msg = b, funds = f\<rparr> = Inr (value' e) \<and>
           typeUrl e = js ''/cosmwasm.wasm.v1.MsgExecuteContract''"
  using assms by (auto simp: updateConfig_def split: sum.splits)

lemma updateConfig_modelled:
  "updateConfig (modelled key) this f =
     Inr \<lparr>typeUrl = js ''/cosmwasm.wasm.v1.MsgExecuteContract'',
          value' = \<lparr>MsgExecuteContract.sender = TemplateMessageComposer.sender this,
                    contract = contractAddress this,
                    msg = toUtf8 (stringify (executeApp key updateConfig_msg)),
                    funds = f\<rparr>\<rparr>"
  by (simp add: updateConfig_def modelled_def fromPartial_def)

lemma fromPartial_modelled:
  "MsgExecuteContract_fromPartial (modelled key) object = Inr v \<longleftrightarrow> v = object"
  by (auto simp: modelled_def fromPartial_def)

lemma calls_unchanged:
  "calls D this fs = (map (updateConfig D this) fs, this, fs)"
  by (induction fs) (simp_all add: updateConfig_call_def)

text \<open>
  C1. Whatever the instance, the funds argument and the imported functions, an envelope that
  \<^verbatim>\<open>updateConfig\<close> returns has \<^verbatim>\<open>typeUrl\<close> "/cosmwasm.wasm.v1.MsgExecuteContract".
\<close>

theorem updateConfig_typeUrl:
  "updateConfig D this f = Inr e \<Longrightarrow> typeUrl e = js ''/cosmwasm.wasm.v1.MsgExecuteContract''"
  by (auto simp: updateConfig_def split: sum.splits)

theorem updateConfig_typeUrl_witness:
  "\<exists>e. updateConfig (modelled (js ''app'') :: unit deps)
         (new_TemplateMessageComposer (js ''abstract1sender'') (js ''abstract1contract''))
         (Some [\<lparr>denom = js ''uusd'', amount = js ''100''\<rparr>]) = Inr e \<and>
       typeUrl e = js ''/cosmwasm.wasm.v1.MsgExecuteContract''"
  using updateConfig_typeUrl [OF updateConfig_modelled] updateConfig_modelled by blast

text \<open>
  C9. The constructor stores its two arguments as they are: the instance built from \<open>s\<close> and
  \<open>c\<close> has \<open>sender = s\<close> and \<open>contractAddress = c\<close>.
\<close>

theorem constructor_stores_arguments:
  "TemplateMessageComposer.sender (new_TemplateMessageComposer s c) = s \<and>
   contractAddress (new_TemplateMessageComposer s c) = c"
  by (simp add: new_TemplateMessageComposer_def)

text \<open>
  C2. The envelope carries the identities of the instance: when \<^verbatim>\<open>fromPartial\<close> returns
  the sender and the contract it is given, an envelope returned for the instance built from
  \<open>s\<close> and \<open>c\<close> has \<open>value.sender = s\<close> and \<open>value.contract = c\<close>, for all
  strings, empty, ASCII or not.
\<close>

theorem updateConfig_identity:
  assumes "\<And>object v. MsgExecuteContract_fromPartial D object = Inr v \<Longrightarrow>
             MsgExecuteContract.sender v = MsgExecuteContract.sender object \<and>
             contract v = contract object"
    and "updateConfig D (new_TemplateMessageComposer s c) f = Inr e"
  shows "MsgExecuteContract.sender (value' e) = s \<and> contract (value' e) = c"
proof -
  from updateConfig_Inr [OF assms(2)] obtain b where
    "MsgExecuteContract_fromPartial D
       \<lparr>MsgExecuteContract.sender = s, contract = c, msg = b, funds = f\<rparr> = Inr (value' e)"
    by (auto simp: new_TemplateMessageComposer_def)
  from assms(1) [OF this] show ?thesis by simp
qed

theorem updateConfig_identity_witness:
  "\<exists>e. updateConfig (modelled (js ''app'') :: unit deps)
         (new_TemplateMessageComposer [0x61, 0xE9, 0x4E2D] [0xD83D, 0xDE00, 0x31]) None = Inr e \<and>
       MsgExecuteContract.sender (value' e) = [0x61, 0xE9, 0x4E2D] \<and>
       contract (value' e) = [0xD83D, 0xDE00, 0x31]"
proof -
  have lib: "MsgExecuteContract.sender v = MsgExecuteContract.sender object \<and>
             contract v = contract object"
    if "MsgExecuteContract_fromPartial (modelled (js ''app'') :: unit deps) object = Inr v"
    for object v
    using that by (simp add: fromPartial_modelled)
  from updateConfig_identity [OF lib updateConfig_modelled] updateConfig_modelled
  show ?thesis by blast
qed

text \<open>
  C3. The funds argument is passed on: when \<^verbatim>\<open>fromPartial\<close> returns absent or empty
  funds for absent funds and the same sequence for a given one, then so does
  \<^verbatim>\<open>updateConfig\<close>: with \<^verbatim>\<open>_funds\<close> omitted \<open>value.funds\<close> is absent or empty,
  and with \<^verbatim>\<open>_funds\<close> a sequence of coins \<open>value.funds\<close> is that sequence, in its order.
\<close>

theorem updateConfig_funds:
  assumes "\<And>object v. MsgExecuteContract_fromPartial D object = Inr v \<Longrightarrow>
             (case funds object of
                None \<Rightarrow> funds v = None \<or> funds v = Some []
              | Some coins \<Rightarrow> funds v = Some coins)"
    and "updateConfig D this f = Inr e"
  shows "case f of
           None \<Rightarrow> funds (value' e) = None \<or> funds (value' e) = Some []
         | Some coins \<Rightarrow> funds (value' e) = Some coins"
proof -
  from updateConfig_Inr [OF assms(2)] obtain b where
    "MsgExecuteContract_fromPartial D
       \<lparr>MsgExecuteContract.sender = TemplateMessageComposer.sender this,
        contract = contractAddress this, msg = b, funds = f\<rparr> = Inr (value' e)"
    by auto
  from assms(1) [OF this] show ?thesis by simp
qed

theorem updateConfig_funds_witness:
  "(\<exists>e. updateConfig (modelled (js ''app'') :: unit deps)
          (new_TemplateMessageComposer (js ''abstract1sender'') (js ''abstract1contract''))
          None = Inr e \<and>
        funds (value' e) = None) \<and>
   (\<exists>e. updateConfig (modelled (js ''app'') :: unit deps)
          (new_TemplateMessageComposer (js ''abstract1sender'') (js ''abstract1contract''))
          (Some [\<lparr>denom = js ''uusd'', amount = js ''100''\<rparr>,
                 \<lparr>denom = js ''uatom'', amount = js ''7''\<rparr>]) = Inr e \<and>
        funds (value' e) =
          Some [\<lparr>denom = js ''uusd'', amount = js ''100''\<rparr>,
                \<lparr>denom = js ''uatom'', amount = js ''7''\<rparr>])"
proof -
  have lib: "case funds object of
               None \<Rightarrow> funds v = None \<or> funds v = Some []
             | Some coins \<Rightarrow> funds v = Some coins"
    if "MsgExecuteContract_fromPartial (modelled (js ''app'') :: unit deps) object = Inr v"
    for object v
    using that by (simp add: fromPartial_modelled split: option.split)
  from updateConfig_funds [OF lib updateConfig_modelled, where f = None]
    updateConfig_funds [OF lib updateConfig_modelled, where f = "Some coins" for coins]
  show ?thesis
    by (simp add: updateConfig_modelled)
qed

text \<open>
  C4. Two calls in a row on one instance with the same funds argument give the same result:
  the same envelope, field by field and so byte by byte, or the same exception of an
  imported function.
\<close>

theorem updateConfig_twice:
  "\<exists>r. fst (calls D this [f, f]) = [r, r]"
  by (simp add: updateConfig_call_def)

text \<open>
  C7. Neither the constructor nor \<^verbatim>\<open>updateConfig\<close> raises an error of its own, for any
  strings and any funds argument: an exception that leaves \<^verbatim>\<open>updateConfig\<close> is one that
  an imported function raised, and when the imported functions all return, an envelope is
  returned.
\<close>

theorem updateConfig_no_own_error:
  "(updateConfig D (new_TemplateMessageComposer s c) f = Inl err \<longrightarrow>
      (\<exists>x. AppExecuteMsgFactory_executeApp D x = Inl err) \<or>
      (\<exists>x. JSON_stringify D x = Inl err) \<or>
      (\<exists>x. encoding_toUtf8 D x = Inl err) \<or>
      (\<exists>x. MsgExecuteContract_fromPartial D x = Inl err)) \<and>
   ((\<forall>x. \<exists>y. AppExecuteMsgFactory_executeApp D x = Inr y) \<and>
    (\<forall>x. \<exists>y. JSON_stringify D x = Inr y) \<and>
    (\<forall>x. \<exists>y. encoding_toUtf8 D x = Inr y) \<and>
    (\<forall>x. \<exists>y. MsgExecuteContract_fromPartial D x = Inr y) \<longrightarrow>
      (\<exists>e. updateConfig D (new_TemplateMessageComposer s c) f = Inr e))"
proof (intro conjI impI)
  assume "updateConfig D (new_TemplateMessageComposer s c) f = Inl err"
  then show "(\<exists>x. AppExecuteMsgFactory_executeApp D x = Inl err) \<or>
      (\<exists>x. JSON_stringify D x = Inl err) \<or>
      (\<exists>x. encoding_toUtf8 D x = Inl err) \<or>
      (\<exists>x. MsgExecuteContract_fromPartial D x = Inl err)"
    by (auto simp: updateConfig_def split: sum.splits)
next
  assume total: "(\<forall>x. \<exists>y. AppExecuteMsgFactory_executeApp D x = Inr y) \<and>
    (\<forall>x. \<exists>y. JSON_stringify D x = Inr y) \<and>
    (\<forall>x. \<exists>y. encoding_toUtf8 D x = Inr y) \<and>
    (\<forall>x. \<exists>y. MsgExecuteContract_fromPartial D x = Inr y)"
  then obtain m where m: "AppExecuteMsgFactory_executeApp D updateConfig_msg = Inr m"
    by blast
  from total obtain t where t: "JSON_stringify D m = Inr t"
    by blast
  from total obtain b where b: "encoding_toUtf8 D t = Inr b"
    by blast
  from total obtain v where
    "MsgExecuteContract_fromPartial D
       \<lparr>MsgExecuteContract.sender =
          TemplateMessageComposer.sender (new_TemplateMessageComposer s c),
        contract = contractAddress (new_TemplateMessageComposer s c),
        msg = b, funds = f\<rparr> = Inr v"
    by blast
  with m t b show "\<exists>e. updateConfig D (new_TemplateMessageComposer s c) f = Inr e"
    by (simp add: updateConfig_def)
qed

theorem updateConfig_no_own_error_witness:
  "(\<exists>e. updateConfig (modelled (js ''app'') :: unit deps)
          (new_TemplateMessageComposer [] []) (Some []) = Inr e) \<and>
   (\<exists>x. MsgExecuteContract_fromPartial
          ((modelled (js ''app'') :: string deps)
             \<lparr>MsgExecuteContract_fromPartial := \<lambda>object. Inl ''TypeError''\<rparr>) x =
        Inl ''TypeError'')"
proof -
  have total: "(\<forall>x. \<exists>y. AppExecuteMsgFactory_executeApp (modelled (js ''app'') :: unit deps) x = Inr y) \<and>
    (\<forall>x. \<exists>y. JSON_stringify (modelled (js ''app'') :: unit deps) x = Inr y) \<and>
    (\<forall>x. \<exists>y. encoding_toUtf8 (modelled (js ''app'') :: unit deps) x = Inr y) \<and>
    (\<forall>x. \<exists>y. MsgExecuteContract_fromPartial (modelled (js ''app'') :: unit deps) x = Inr y)"
    by (simp add: modelled_def)
  have thrown: "updateConfig
      ((modelled (js ''app'') :: string deps)
         \<lparr>MsgExecuteContract_fromPartial := \<lambda>object. Inl ''TypeError''\<rparr>)
      (new_TemplateMessageComposer [] []) (Some []) = Inl ''TypeError''"
    by (simp add: updateConfig_def modelled_def)
  from updateConfig_no_own_error [THEN conjunct2, rule_format, OF total]
  have "\<exists>e. updateConfig (modelled (js ''app'') :: unit deps)
          (new_TemplateMessageComposer [] []) (Some []) = Inr e" .
  moreover
  from updateConfig_no_own_error [THEN conjunct1, rule_format, OF thrown]
  have "\<exists>x. MsgExecuteContract_fromPartial
          ((modelled (js ''app'') :: string deps)
             \<lparr>MsgExecuteContract_fromPartial := \<lambda>object. Inl ''TypeError''\<rparr>) x =
        Inl ''TypeError''"
    by (simp add: modelled_def)
  ultimately show ?thesis by blast
qed

text \<open>
  C8. Calls have no effect on the instance or on their argument: after any number of calls,
  with any funds arguments, the instance is the one the constructor built, with its
  \<open>sender\<close> and \<open>contractAddress\<close>, every funds sequence is as it was passed, and each
  call has returned what a first call with its argument returns.
\<close>

theorem calls_leave_instance:
  "calls D (new_TemplateMessageComposer s c) fs =
     (map (updateConfig D (new_TemplateMessageComposer s c)) fs,
      new_TemplateMessageComposer s c, fs) \<and>
   TemplateMessageComposer.sender (fst (snd (calls D (new_TemplateMessageComposer s c) fs))) = s \<and>
   contractAddress (fst (snd (calls D (new_TemplateMessageComposer s c) fs))) = c"
  by (simp add: calls_unchanged new_TemplateMessageComposer_def)

text \<open>
  C10. The payload does not depend on the instance or on the funds: when \<^verbatim>\<open>fromPartial\<close>
  returns the \<open>msg\<close> it is given, any two envelopes returned, for any two instances and
  funds arguments, have the same \<open>value.msg\<close>, and it is what \<^verbatim>\<open>toUtf8\<close>,
  \<^verbatim>\<open>JSON.stringify\<close> and \<^verbatim>\<open>executeApp\<close> make of the constant
  \<^verbatim>\<open>{update_config: {}}\<close>.
\<close>

theorem updateConfig_msg_independent:
  assumes "\<And>object v. MsgExecuteContract_fromPartial D object = Inr v \<Longrightarrow> msg v = msg object"
    and "updateConfig D this1 f1 = Inr e1"
    and "updateConfig D this2 f2 = Inr e2"
  shows "msg (value' e1) = msg (value' e2) \<and>
         (\<exists>m t. AppExecuteMsgFactory_executeApp D updateConfig_msg = Inr m \<and>
                JSON_stringify D m = Inr t \<and>
                encoding_toUtf8 D t = Inr (msg (value' e1)))"
proof -
  from updateConfig_Inr [OF assms(2)] obtain m t b where 1:
    "AppExecuteMsgFactory_executeApp D updateConfig_msg = Inr m"
    "JSON_stringify D m = Inr t" "encoding_toUtf8 D t = Inr b"
    "MsgExecuteContract_fromPartial D
       \<lparr>MsgExecuteContract.sender = TemplateMessageComposer.sender this1,
        contract = contractAddress this1, msg = b, funds = f1\<rparr> = Inr (value' e1)"
    by blast
  from updateConfig_Inr [OF assms(3)] 1(1-3) have 2:
    "MsgExecuteContract_fromPartial D
       \<lparr>MsgExecuteContract.sender = TemplateMessageComposer.sender this2,
        contract = contractAddress this2, msg = b, funds = f2\<rparr> = Inr (value' e2)"
    by auto
  from assms(1) [OF 1(4)] assms(1) [OF 2] have "msg (value' e1) = b" "msg (value' e2) = b"
    by simp_all
  with 1(1-3) show ?thesis by auto
qed

theorem updateConfig_msg_independent_witness:
  "\<exists>e1 e2.
     updateConfig (modelled (js ''app'') :: unit deps)
       (new_TemplateMessageComposer (js ''alice'') (js ''contract1'')) None = Inr e1 \<and>
     updateConfig (modelled (js ''app'') :: unit deps)
       (new_TemplateMessageComposer (js ''bob'') (js ''contract2''))
       (Some [\<lparr>denom = js ''uusd'', amount = js ''100''\<rparr>]) = Inr e2 \<and>
     msg (value' e1) = msg (value' e2)"
proof -
  have lib: "msg v = msg object"
    if "MsgExecuteContract_fromPartial (modelled (js ''app'') :: unit deps) object = Inr v"
    for object v
    using that by (simp add: fromPartial_modelled)
  from updateConfig_msg_independent [OF lib updateConfig_modelled updateConfig_modelled]
    updateConfig_modelled
  show ?thesis by blast
qed

text \<open>
  C5. Read back as UTF-8 and parsed as JSON, the payload of the envelope is an object with one
  member, the wrapper key, whose value is an object with the one member "update_config",
  whose value is the empty object. This holds for every instance, every funds argument and
  every wrapper key, with the imported functions as modelled.
\<close>

theorem updateConfig_payload_decodes:
  "\<exists>e. updateConfig (modelled key) this f = Inr e \<and>
       decode_payload (msg (value' e)) =
         Some (JObject [(key, JObject [(js ''update_config'', JObject [])])])"
  by (simp add: updateConfig_modelled decode_payload_modelled)

text \<open>
  C6. The example of section 8: the instance built from "abstract1sender..." and
  "abstract1contract...", called with no funds, returns the envelope with the fixed type
  identifier, these two strings as sender and contract, the UTF-8 bytes of the wrapped
  \<^verbatim>\<open>{"update_config":{}}\<close> as msg and no funds, with the imported functions as modelled
  and whatever the wrapper key. For the key "app" the bytes are those of the text
  \<^verbatim>\<open>{"app":{"update_config":{}}}\<close>.
\<close>

theorem updateConfig_example:
  \<open>updateConfig (modelled key)
     (new_TemplateMessageComposer (js ''abstract1sender...'') (js ''abstract1contract...''))
     None =
   Inr \<lparr>typeUrl = js ''/cosmwasm.wasm.v1.MsgExecuteContract'',
        value' =
          \<lparr>MsgExecuteContract.sender = js ''abstract1sender...'',
           contract = js ''abstract1contract...'',
           msg = toUtf8 (stringify (executeApp key (JObject [(js ''update_config'', JObject [])]))),
           funds = None\<rparr>\<rparr> \<and>
   toUtf8 (stringify (executeApp (js ''app'') (JObject [(js ''update_config'', JObject [])]))) =
     ascii ''{"app":{"update_config":{}}}''\<close>
proof
  show \<open>updateConfig (modelled key)
     (new_TemplateMessageComposer (js ''abstract1sender...'') (js ''abstract1contract...''))
     None =
   Inr \<lparr>typeUrl = js ''/cosmwasm.wasm.v1.MsgExecuteContract'',
        value' =
          \<lparr>MsgExecuteContract.sender = js ''abstract1sender...'',
           contract = js ''abstract1contract...'',
           msg = toUtf8 (stringify (executeApp key (JObject [(js ''update_config'', JObject [])]))),
           funds = None\<rparr>\<rparr>\<close>
    by (simp add: updateConfig_modelled new_TemplateMessageComposer_def updateConfig_msg_def)
  show \<open>toUtf8 (stringify (executeApp (js ''app'') (JObject [(js ''update_config'', JObject [])]))) =
     ascii ''{"app":{"update_config":{}}}''\<close>
    by code_simp
qed

end
